theory Spec2Isabelle
  imports Main
begin

section \<open>Conventions of the embedding\<close>

text \<open>
  The development embeds \<^verbatim>\<open>src/security/authentication_service.py\<close>.

  \<^item> Python's unbounded \<^verbatim>\<open>int\<close> is \<^typ>\<open>int\<close>.
  \<^item> A \<^verbatim>\<open>datetime\<close> is the number of whole seconds since the epoch, an \<^typ>\<open>int\<close>;
    a \<^verbatim>\<open>timedelta\<close> is a difference of two such numbers. One call of a service method
    reads the clock at a single instant \<open>now\<close>, which the caller of the model supplies.
  \<^item> A \<^verbatim>\<open>str\<close> is a \<^typ>\<open>string\<close> whose characters are the code points below 256.
  \<^item> \<^verbatim>\<open>None\<close> for an optional argument or a nullable column without default is
    \<^term>\<open>None\<close> of an option type. Columns with a default are filled by the ORM and are
    modelled as never null.
  \<^item> Random values (\<^verbatim>\<open>secrets.token_urlsafe\<close>, \<^verbatim>\<open>uuid.uuid4\<close>) are supplied by the caller
    of the model.
\<close>

section \<open>Configuration (class AuthConfig)\<close>

text \<open>
  The fields the modelled methods read. Key paths, the database URL, the Redis
  connection settings, \<^verbatim>\<open>mfa_enabled\<close>, \<^verbatim>\<open>mfa_issuer_name\<close>, \<^verbatim>\<open>session_timeout\<close> and
  \<^verbatim>\<open>password_history_count\<close> are read by none of them.
\<close>

record auth_config =
  jwt_algorithm :: string
  jwt_access_token_expiry :: int
  jwt_refresh_token_expiry :: int
  jwt_issuer :: string
  jwt_audience :: string
  password_min_length :: int
  password_require_uppercase :: bool
  password_require_lowercase :: bool
  password_require_numbers :: bool
  password_require_special :: bool
  password_expiry_days :: int
  session_absolute_timeout :: int
  concurrent_sessions_limit :: int
  max_login_attempts :: int
  lockout_duration :: int
  require_email_verification :: bool

text \<open>The defaults of the dataclass, taken when no environment variable overrides them.\<close>

definition default_config :: auth_config where
  "default_config =
     \<lparr> jwt_algorithm = ''RS256'',
       jwt_access_token_expiry = 900,
       jwt_refresh_token_expiry = 86400,
       jwt_issuer = ''kgv-auth'',
       jwt_audience = ''kgv-api'',
       password_min_length = 12,
       password_require_uppercase = True,
       password_require_lowercase = True,
       password_require_numbers = True,
       password_require_special = True,
       password_expiry_days = 90,
       session_absolute_timeout = 43200,
       concurrent_sessions_limit = 3,
       max_login_attempts = 5,
       lockout_duration = 900,
       require_email_verification = True \<rparr>"

section \<open>Strings\<close>

text \<open>\<^verbatim>\<open>str(n)\<close> for an integer, as the f-strings of the source format it.\<close>

fun str_nat :: "nat \<Rightarrow> string" where
  "str_nat n =
     (if n < 10 then [''0123456789'' ! n]
      else str_nat (n div 10) @ [''0123456789'' ! (n mod 10)])"

definition str_int :: "int \<Rightarrow> string" where
  "str_int i = (if i < 0 then CHR ''-'' # str_nat (nat (- i)) else str_nat (nat i))"

text \<open>
  \<^verbatim>\<open>str.lower()\<close> on code points below 256: the letters A-Z and the upper-case
  Latin-1 letters (192-214, 216-222) move up by 32, which sets bit 5.
\<close>

definition lower_char :: "char \<Rightarrow> char" where
  "lower_char c =
     (let n = (of_char c :: nat)
      in if (65 \<le> n \<and> n \<le> 90) \<or> (192 \<le> n \<and> n \<le> 214) \<or> (216 \<le> n \<and> n \<le> 222)
         then (case c of Char b0 b1 b2 b3 b4 b5 b6 b7 \<Rightarrow> Char b0 b1 b2 b3 b4 True b6 b7)
         else c)"

definition lower :: "string \<Rightarrow> string" where
  "lower s = map lower_char s"

text \<open>\<^verbatim>\<open>needle in hay\<close> on two strings: the substring test. The empty string is in every string.\<close>

fun str_in :: "string \<Rightarrow> string \<Rightarrow> bool" where
  "str_in needle [] = (needle = [])"
| "str_in needle (c # cs) = (take (length needle) (c # cs) = needle \<or> str_in needle cs)"

text \<open>\<^verbatim>\<open>re.search\<close> with a pattern that is one character class: some character is in the class.\<close>

definition re_search_class :: "string \<Rightarrow> string \<Rightarrow> bool" where
  "re_search_class cls s = list_ex (\<lambda>c. c \<in> set cls) s"

definition upper_class :: string where
  "upper_class = ''ABCDEFGHIJKLMNOPQRSTUVWXYZ''"

definition lower_class :: string where
  "lower_class = ''abcdefghijklmnopqrstuvwxyz''"

text \<open>\<^verbatim>\<open>\d\<close>: below code point 256 the decimal digits are 0-9 only.\<close>

definition digit_class :: string where
  "digit_class = ''0123456789''"

text \<open>The class \<^verbatim>\<open>[!@#$%^&*(),.?":{}|<>]\<close>; 0x22 is the double quote.\<close>

definition special_class :: string where
  "special_class = ''!@#$%^&*(),.?'' @ [CHR 0x22] @ '':{}|<>''"

section \<open>PasswordManager.validate\_password\_strength\<close>

definition common_passwords :: "string list" where
  "common_passwords = [''password'', ''123456'', ''admin'', ''letmein'', ''welcome'']"

text \<open>
  The method collects every violation in order. \<^verbatim>\<open>if username and ...\<close> and
  \<^verbatim>\<open>if email:\<close> skip both \<^verbatim>\<open>None\<close> and the empty string; \<^verbatim>\<open>email.split('@')[0]\<close> is
  the text before the first \<^verbatim>\<open>@\<close>; \<^verbatim>\<open>len(set(password))\<close> counts distinct characters.
\<close>

definition validate_password_strength ::
  "auth_config \<Rightarrow> string \<Rightarrow> string option \<Rightarrow> string option \<Rightarrow> bool \<times> string list" where
  "validate_password_strength config password username email =
     (let errors = [];
          errors = (if int (length password) < password_min_length config
                    then errors @ [''Password must be at least '' @
                                   str_int (password_min_length config) @ '' characters'']
                    else errors);
          errors = (if password_require_uppercase config \<and> \<not> re_search_class upper_class password
                    then errors @ [''Password must contain at least one uppercase letter'']
                    else errors);
          errors = (if password_require_lowercase config \<and> \<not> re_search_class lower_class password
                    then errors @ [''Password must contain at least one lowercase letter'']
                    else errors);
          errors = (if password_require_numbers config \<and> \<not> re_search_class digit_class password
                    then errors @ [''Password must contain at least one number'']
                    else errors);
          errors = (if password_require_special config \<and> \<not> re_search_class special_class password
                    then errors @ [''Password must contain at least one special character'']
                    else errors);
          errors = (if lower password \<in> set common_passwords
                    then errors @ [''Password is too common'']
                    else errors);
          errors = (case username of
                      None \<Rightarrow> errors
                    | Some u \<Rightarrow>
                        if u \<noteq> [] \<and> str_in (lower u) (lower password)
                        then errors @ [''Password cannot contain username'']
                        else errors);
          errors = (case email of
                      None \<Rightarrow> errors
                    | Some e \<Rightarrow>
                        if e \<noteq> [] \<and> str_in (lower (takeWhile (\<lambda>c. c \<noteq> CHR ''@'') e)) (lower password)
                        then errors @ [''Password cannot contain email address'']
                        else errors);
          errors = (if length (remdups password) < 5
                    then errors @ [''Password lacks sufficient character variety'']
                    else errors)
      in (errors = [], errors))"

section \<open>Database models\<close>

text \<open>
  The ORM classes as records. A relationship is the list of the related rows. The
  surrogate keys of sessions and audit rows, \<^verbatim>\<open>email_verification_token\<close>,
  \<^verbatim>\<open>password_history\<close> and the \<^verbatim>\<open>created_at\<close>/\<^verbatim>\<open>updated_at\<close> stamps of a user are read by
  no modelled method and are left out. Where two classes share a column name, the
  session's and the audit row's columns carry the prefix \<open>sess_\<close> or \<open>audit_\<close>; the key
  \<^verbatim>\<open>AuthUser.id\<close> is \<open>uid\<close>.
\<close>

record auth_permission =
  resource :: string
  action :: string

record auth_role =
  role_name :: string
  permissions :: "auth_permission list"

record auth_user =
  uid :: int
  uuid :: string
  username :: string
  email :: string
  password_hash :: string
  mfa_secret :: "string option"
  mfa_enabled :: bool
  email_verified :: bool
  password_changed_at :: int
  must_change_password :: bool
  is_active :: bool
  is_locked :: bool
  locked_until :: "int option"
  failed_login_attempts :: int
  last_failed_login :: "int option"
  last_login :: "int option"
  last_login_ip :: "string option"
  roles :: "auth_role list"

section \<open>JWT tokens\<close>

text \<open>
  The PyJWT library is not part of the repository. Its tokens are modelled
  symbolically: an encoded token is either a signed object that carries the header's
  algorithm, the claims and the private key that signed it, or a string that is no
  token at all. A signature verifies under a public key exactly when that key belongs
  to the signing key. Time claims are whole seconds.
\<close>

datatype rsa_private_key = PrivateKey nat

datatype rsa_public_key = PublicKey nat

fun public_of :: "rsa_private_key \<Rightarrow> rsa_public_key" where
  "public_of (PrivateKey k) = PublicKey k"

datatype claim_value = CStr string | CTime int | CList "string list"

type_synonym claims = "string \<rightharpoonup> claim_value"

datatype jwt = JWT string claims rsa_private_key | Malformed string

definition jwt_encode :: "claims \<Rightarrow> rsa_private_key \<Rightarrow> string \<Rightarrow> jwt" where
  "jwt_encode payload key algorithm = JWT algorithm payload key"

text \<open>The exceptions of \<^verbatim>\<open>jwt.decode\<close>; every one is a \<^verbatim>\<open>jwt.InvalidTokenError\<close>.\<close>

datatype jwt_error =
    DecodeError
  | InvalidAlgorithmError
  | InvalidSignatureError
  | InvalidIssuedAtError
  | ImmatureSignatureError
  | ExpiredSignatureError
  | InvalidIssuerError
  | InvalidAudienceError
  | MissingRequiredClaimError string

text \<open>
  The claim checks of \<^verbatim>\<open>jwt.decode(token, key, algorithms, audience, issuer)\<close> with the
  library's default options, in its order: \<^verbatim>\<open>iat\<close>, \<^verbatim>\<open>nbf\<close>, \<^verbatim>\<open>exp\<close> (each only when
  present), then issuer and audience, which are required once the caller names them.
  A token is expired when \<^verbatim>\<open>exp <= now\<close>.
\<close>

definition validate_iat :: "int \<Rightarrow> claims \<Rightarrow> jwt_error option" where
  "validate_iat now payload =
     (case payload ''iat'' of
        None \<Rightarrow> None
      | Some (CTime iat) \<Rightarrow> if iat > now then Some ImmatureSignatureError else None
      | Some _ \<Rightarrow> Some InvalidIssuedAtError)"

definition validate_nbf :: "int \<Rightarrow> claims \<Rightarrow> jwt_error option" where
  "validate_nbf now payload =
     (case payload ''nbf'' of
        None \<Rightarrow> None
      | Some (CTime nbf) \<Rightarrow> if nbf > now then Some ImmatureSignatureError else None
      | Some _ \<Rightarrow> Some DecodeError)"

definition validate_exp :: "int \<Rightarrow> claims \<Rightarrow> jwt_error option" where
  "validate_exp now payload =
     (case payload ''exp'' of
        None \<Rightarrow> None
      | Some (CTime exp) \<Rightarrow> if exp \<le> now then Some ExpiredSignatureError else None
      | Some _ \<Rightarrow> Some DecodeError)"

definition validate_iss :: "string \<Rightarrow> claims \<Rightarrow> jwt_error option" where
  "validate_iss issuer payload =
     (case payload ''iss'' of
        None \<Rightarrow> Some (MissingRequiredClaimError ''iss'')
      | Some iss \<Rightarrow> if iss \<noteq> CStr issuer then Some InvalidIssuerError else None)"

definition validate_aud :: "string \<Rightarrow> claims \<Rightarrow> jwt_error option" where
  "validate_aud audience payload =
     (case payload ''aud'' of
        None \<Rightarrow> Some (MissingRequiredClaimError ''aud'')
      | Some (CStr aud) \<Rightarrow> if audience \<noteq> aud then Some InvalidAudienceError else None
      | Some (CList auds) \<Rightarrow> if audience \<notin> set auds then Some InvalidAudienceError else None
      | Some (CTime _) \<Rightarrow> Some InvalidAudienceError)"

fun first_error :: "jwt_error option list \<Rightarrow> jwt_error option" where
  "first_error [] = None"
| "first_error (None # es) = first_error es"
| "first_error (Some e # es) = Some e"

fun jwt_decode ::
  "int \<Rightarrow> jwt \<Rightarrow> rsa_public_key \<Rightarrow> string list \<Rightarrow> string \<Rightarrow> string \<Rightarrow> jwt_error + claims" where
  "jwt_decode now (Malformed s) key algorithms audience issuer = Inl DecodeError"
| "jwt_decode now (JWT alg payload signer) key algorithms audience issuer =
     (if alg \<notin> set algorithms then Inl InvalidAlgorithmError
      else if public_of signer \<noteq> key then Inl InvalidSignatureError
      else case first_error [validate_iat now payload, validate_nbf now payload,
                             validate_exp now payload, validate_iss issuer payload,
                             validate_aud audience payload] of
             Some e \<Rightarrow> Inl e
           | None \<Rightarrow> Inr payload)"

section \<open>JWTManager\<close>

text \<open>The manager holds the configuration and the two keys that \<^verbatim>\<open>_load_keys\<close> read.\<close>

record jwt_manager =
  jwt_config :: auth_config
  private_key :: rsa_private_key
  public_key :: rsa_public_key

text \<open>
  \<^verbatim>\<open>list(set(permissions))\<close>: the permission strings without duplicates. Python leaves
  the order of the result open; the model keeps the order of \<^const>\<open>remdups\<close>.
\<close>

definition permission_strings :: "auth_user \<Rightarrow> string list" where
  "permission_strings user =
     remdups (concat (map (\<lambda>role. map (\<lambda>perm. resource perm @ '':'' @ action perm)
                                     (permissions role))
                          (roles user)))"

text \<open>\<open>now\<close> is the clock reading of the call and \<open>jti\<close> the fresh \<^verbatim>\<open>uuid4\<close>.\<close>

definition access_claims :: "auth_config \<Rightarrow> auth_user \<Rightarrow> string \<Rightarrow> int \<Rightarrow> string \<Rightarrow> claims" where
  "access_claims config user session_id now jti =
     [''sub'' \<mapsto> CStr (uuid user),
      ''username'' \<mapsto> CStr (username user),
      ''email'' \<mapsto> CStr (email user),
      ''roles'' \<mapsto> CList (map role_name (roles user)),
      ''session_id'' \<mapsto> CStr session_id,
      ''iat'' \<mapsto> CTime now,
      ''exp'' \<mapsto> CTime (now + jwt_access_token_expiry config),
      ''nbf'' \<mapsto> CTime now,
      ''iss'' \<mapsto> CStr (jwt_issuer config),
      ''aud'' \<mapsto> CStr (jwt_audience config),
      ''jti'' \<mapsto> CStr jti,
      ''permissions'' \<mapsto> CList (permission_strings user)]"

definition generate_access_token :: "jwt_manager \<Rightarrow> auth_user \<Rightarrow> string \<Rightarrow> int \<Rightarrow> string \<Rightarrow> jwt" where
  "generate_access_token m user session_id now jti =
     jwt_encode (access_claims (jwt_config m) user session_id now jti) (private_key m)
       (jwt_algorithm (jwt_config m))"

definition refresh_claims :: "auth_config \<Rightarrow> auth_user \<Rightarrow> string \<Rightarrow> int \<Rightarrow> string \<Rightarrow> claims" where
  "refresh_claims config user session_id now jti =
     [''sub'' \<mapsto> CStr (uuid user),
      ''session_id'' \<mapsto> CStr session_id,
      ''token_type'' \<mapsto> CStr ''refresh'',
      ''iat'' \<mapsto> CTime now,
      ''exp'' \<mapsto> CTime (now + jwt_refresh_token_expiry config),
      ''nbf'' \<mapsto> CTime now,
      ''iss'' \<mapsto> CStr (jwt_issuer config),
      ''aud'' \<mapsto> CStr (jwt_audience config),
      ''jti'' \<mapsto> CStr jti]"

definition generate_refresh_token :: "jwt_manager \<Rightarrow> auth_user \<Rightarrow> string \<Rightarrow> int \<Rightarrow> string \<Rightarrow> jwt" where
  "generate_refresh_token m user session_id now jti =
     jwt_encode (refresh_claims (jwt_config m) user session_id now jti) (private_key m)
       (jwt_algorithm (jwt_config m))"

text \<open>
  \<^verbatim>\<open>verify_token\<close>: the type marker is compared only when the caller expects a refresh
  token; both \<^verbatim>\<open>except\<close> clauses return \<^verbatim>\<open>None\<close>.
\<close>

definition verify_token :: "jwt_manager \<Rightarrow> int \<Rightarrow> jwt \<Rightarrow> string \<Rightarrow> claims option" where
  "verify_token m now token token_type =
     (case jwt_decode now token (public_key m) [jwt_algorithm (jwt_config m)]
             (jwt_audience (jwt_config m)) (jwt_issuer (jwt_config m)) of
        Inr payload \<Rightarrow>
          if token_type = ''refresh'' \<and> payload ''token_type'' \<noteq> Some (CStr ''refresh'')
          then None
          else Some payload
      | Inl ExpiredSignatureError \<Rightarrow> None
      | Inl _ \<Rightarrow> None)"

section \<open>Sessions, audit rows and the two stores\<close>

record auth_session =
  session_id :: string
  user_id :: int
  access_token :: jwt
  refresh_token :: jwt
  access_token_expires :: int
  refresh_token_expires :: int
  ip_address :: "string option"
  user_agent :: "string option"
  created_at :: int
  last_activity :: int
  expires_at :: int
  sess_is_active :: bool

text \<open>
  The detail payload of an audit row is the dictionary handed to \<^verbatim>\<open>json.dumps\<close>, kept
  as its list of items. \<^verbatim>\<open>_log_audit\<close> never sets the row's \<^verbatim>\<open>user_agent\<close>, which is
  left out.
\<close>

datatype json = JStr string | JInt int

record auth_audit_log =
  audit_user_id :: "int option"
  event_type :: string
  event_status :: string
  details :: "(string \<times> json) list option"
  audit_ip_address :: "string option"
  audit_created_at :: int

text \<open>The durable tables. The order of a list is the order in which a query returns rows.\<close>

record database =
  users :: "auth_user list"
  sessions :: "auth_session list"
  audit_logs :: "auth_audit_log list"

text \<open>
  An SQLAlchemy session is a unit of work: attribute assignments and \<^verbatim>\<open>db.add\<close> change
  the rows as the session sees them (\<open>work\<close>); \<^verbatim>\<open>db.commit()\<close> makes them durable;
  \<^verbatim>\<open>db.close()\<close> drops what was not committed.
\<close>

record db_session =
  work :: database
  committed :: database

definition session_local :: "database \<Rightarrow> db_session" where
  "session_local d = \<lparr> work = d, committed = d \<rparr>"

definition commit :: "db_session \<Rightarrow> db_session" where
  "commit db = db\<lparr>committed := work db\<rparr>"

definition close :: "db_session \<Rightarrow> database" where
  "close db = committed db"

text \<open>Assigning to attributes of the row object found at position \<open>i\<close>.\<close>

definition put_user :: "db_session \<Rightarrow> nat \<Rightarrow> auth_user \<Rightarrow> db_session" where
  "put_user db i user = db\<lparr>work := (work db)\<lparr>users := (users (work db))[i := user]\<rparr>\<rparr>"

definition put_session :: "db_session \<Rightarrow> nat \<Rightarrow> auth_session \<Rightarrow> db_session" where
  "put_session db k row = db\<lparr>work := (work db)\<lparr>sessions := (sessions (work db))[k := row]\<rparr>\<rparr>"

definition add_session :: "db_session \<Rightarrow> auth_session \<Rightarrow> db_session" where
  "add_session db row = db\<lparr>work := (work db)\<lparr>sessions := sessions (work db) @ [row]\<rparr>\<rparr>"

text \<open>
  \<^verbatim>\<open>_log_audit\<close>: add the row, then commit, which also commits whatever the unit of
  work holds. An empty detail dictionary is falsy and is stored as null.
\<close>

definition log_audit ::
  "db_session \<Rightarrow> int \<Rightarrow> int option \<Rightarrow> string \<Rightarrow> string \<Rightarrow> (string \<times> json) list \<Rightarrow> string option
     \<Rightarrow> db_session" where
  "log_audit db now who etype status payload ip =
     (let audit = \<lparr> audit_user_id = who,
                     event_type = etype,
                     event_status = status,
                     details = (if payload = [] then None else Some payload),
                     audit_ip_address = ip,
                     audit_created_at = now \<rparr>
      in commit (db\<lparr>work := (work db)\<lparr>audit_logs := audit_logs (work db) @ [audit]\<rparr>\<rparr>))"

text \<open>
  The Redis cache: a key maps to its time to live and the cached fields.
  \<^verbatim>\<open>timedelta.seconds\<close> is the seconds part of the normalised difference, between 0 and
  86399.
\<close>

record cached_session =
  cached_user_id :: int
  cached_expires_at :: int
  cached_ip_address :: "string option"

type_synonym redis_store = "string \<rightharpoonup> int \<times> cached_session"

definition timedelta_seconds :: "int \<Rightarrow> int" where
  "timedelta_seconds d = d mod 86400"

definition timedelta_days :: "int \<Rightarrow> int" where
  "timedelta_days d = d div 86400"

definition cache_session :: "redis_store \<Rightarrow> int \<Rightarrow> auth_session \<Rightarrow> redis_store" where
  "cache_session r now row =
     r(''session:'' @ session_id row \<mapsto>
         (timedelta_seconds (expires_at row - now),
          \<lparr> cached_user_id = user_id row,
            cached_expires_at = expires_at row,
            cached_ip_address = ip_address row \<rparr>))"

definition invalidate_session_cache :: "redis_store \<Rightarrow> string \<Rightarrow> redis_store" where
  "invalidate_session_cache r sid = r(''session:'' @ sid := None)"

record world =
  store :: database
  redis :: redis_store

section \<open>Queries\<close>

text \<open>\<^verbatim>\<open>query.filter(P).first()\<close>: the position of the first row that satisfies \<open>P\<close>.\<close>

fun first_index :: "('a \<Rightarrow> bool) \<Rightarrow> 'a list \<Rightarrow> nat option" where
  "first_index P [] = None"
| "first_index P (x # xs) = (if P x then Some 0 else map_option Suc (first_index P xs))"

text \<open>
  \<^verbatim>\<open>order_by(AuthSession.created_at).first()\<close> on rows paired with their positions: a
  row with the least creation time; among equal times the model takes the earliest
  row of the list.
\<close>

fun order_by_created_at_first :: "(nat \<times> auth_session) list \<Rightarrow> (nat \<times> auth_session) option" where
  "order_by_created_at_first [] = None"
| "order_by_created_at_first (r # rs) =
     (case order_by_created_at_first rs of
        None \<Rightarrow> Some r
      | Some t \<Rightarrow> if created_at (snd r) \<le> created_at (snd t) then Some r else Some t)"

text \<open>The rows the count query of \<^verbatim>\<open>authenticate\<close> selects.\<close>

definition active_unexpired :: "int \<Rightarrow> int \<Rightarrow> auth_session \<Rightarrow> bool" where
  "active_unexpired owner now row = (user_id row = owner \<and> sess_is_active row \<and> expires_at row > now)"

text \<open>The rows the eviction query selects: it does not look at \<^verbatim>\<open>expires_at\<close>.\<close>

definition flagged_active :: "int \<Rightarrow> auth_session \<Rightarrow> bool" where
  "flagged_active owner row = (user_id row = owner \<and> sess_is_active row)"

section \<open>AuthenticationService\<close>

text \<open>
  The service holds the configuration, the key pair of its JWT manager, and two
  collaborators that are libraries outside the repository: password verification
  (argon2 with the passlib fallback) and the TOTP check of pyotp, which depends on
  the time. Both are functions the service is given. Failures of the collaborators
  themselves (database, Redis, key files) are not modelled, so the handler
  \<^verbatim>\<open>except Exception\<close> of \<^verbatim>\<open>authenticate\<close> has no counterpart.
\<close>

record auth_service =
  config :: auth_config
  signing_key :: rsa_private_key
  verifying_key :: rsa_public_key
  verify_password :: "string \<Rightarrow> string \<Rightarrow> bool"
  mfa_verify_token :: "int \<Rightarrow> string option \<Rightarrow> string \<Rightarrow> bool"

definition jwt_manager_of :: "auth_service \<Rightarrow> jwt_manager" where
  "jwt_manager_of svc =
     \<lparr> jwt_config = config svc, private_key = signing_key svc, public_key = verifying_key svc \<rparr>"

text \<open>What one call reads from outside: the clock and the random strings.\<close>

record call_env =
  utcnow :: int
  token_urlsafe :: string
  access_jti :: string
  refresh_jti :: string

text \<open>The dictionary a successful \<^verbatim>\<open>authenticate\<close> returns.\<close>

record login_bundle =
  bundle_user_id :: int
  bundle_username :: string
  bundle_email :: string
  bundle_roles :: "string list"
  bundle_access_token :: jwt
  bundle_refresh_token :: jwt
  expires_in :: int
  bundle_must_change_password :: bool

type_synonym auth_result = "bool \<times> string \<times> login_bundle option"

text \<open>The session row that \<^verbatim>\<open>authenticate\<close> builds (lines 655-669).\<close>

definition new_session ::
  "auth_service \<Rightarrow> call_env \<Rightarrow> auth_user \<Rightarrow> string option \<Rightarrow> string option \<Rightarrow> auth_session" where
  "new_session svc env user ip agent =
     \<lparr> session_id = token_urlsafe env,
       user_id = uid user,
       access_token = generate_access_token (jwt_manager_of svc) user (token_urlsafe env)
                        (utcnow env) (access_jti env),
       refresh_token = generate_refresh_token (jwt_manager_of svc) user (token_urlsafe env)
                         (utcnow env) (refresh_jti env),
       access_token_expires = utcnow env + jwt_access_token_expiry (config svc),
       refresh_token_expires = utcnow env + jwt_refresh_token_expiry (config svc),
       ip_address = ip,
       user_agent = agent,
       created_at = utcnow env,
       last_activity = utcnow env,
       expires_at = utcnow env + session_absolute_timeout (config svc),
       sess_is_active = True \<rparr>"

text \<open>
  The tail of \<^verbatim>\<open>authenticate\<close> once every gate is passed (lines 630-695): password
  age, the concurrent-session check with its eviction, the new session, the login
  stamps, the commit, the cache entry and the audit row. \<open>i\<close> is the position of the
  user's row and \<open>user\<close> the row object as the gates left it.
\<close>

definition establish_session ::
  "auth_service \<Rightarrow> call_env \<Rightarrow> world \<Rightarrow> db_session \<Rightarrow> nat \<Rightarrow> auth_user \<Rightarrow> string option
     \<Rightarrow> string option \<Rightarrow> auth_result \<times> world" where
  "establish_session svc env w db i user ip agent =
     (let now = utcnow env;
          user = (if password_expiry_days (config svc) > 0
                     \<and> timedelta_days (now - password_changed_at user) > password_expiry_days (config svc)
                  then user\<lparr>must_change_password := True\<rparr> else user);
          db = put_user db i user;
          active_sessions = int (length (filter (active_unexpired (uid user) now) (sessions (work db))));
          evicted = (if active_sessions \<ge> concurrent_sessions_limit (config svc)
                     then order_by_created_at_first
                            (filter (\<lambda>r. flagged_active (uid user) (snd r))
                                    (enumerate 0 (sessions (work db))))
                     else None);
          db = (case evicted of
                  None \<Rightarrow> db
                | Some (k, oldest) \<Rightarrow> put_session db k (oldest\<lparr>sess_is_active := False\<rparr>));
          cache = (case evicted of
                     None \<Rightarrow> redis w
                   | Some (k, oldest) \<Rightarrow> invalidate_session_cache (redis w) (session_id oldest));
          row = new_session svc env user ip agent;
          db = add_session db row;
          user = user\<lparr>last_login := Some now, last_login_ip := ip, failed_login_attempts := 0\<rparr>;
          db = commit (put_user db i user);
          cache = cache_session cache now row;
          db = log_audit db now (Some (uid user)) ''LOGIN_SUCCESS'' ''SUCCESS''
                 [(''session_id'', JStr (session_id row))] ip
      in ((True, ''Authentication successful'',
           Some \<lparr> bundle_user_id = uid user,
                  bundle_username = username user,
                  bundle_email = email user,
                  bundle_roles = map role_name (roles user),
                  bundle_access_token = access_token row,
                  bundle_refresh_token = refresh_token row,
                  expires_in = jwt_access_token_expiry (config svc),
                  bundle_must_change_password = must_change_password user \<rparr>),
          \<lparr> store = close db, redis = cache \<rparr>))"

text \<open>
  \<^verbatim>\<open>authenticate\<close> (lines 558-701). \<open>login\<close> is the parameter \<^verbatim>\<open>username\<close>, which is
  matched against both the user name and the e-mail address. \<^verbatim>\<open>not mfa_token\<close> holds for
  \<^verbatim>\<open>None\<close> and for the empty string. Every branch ends with \<^verbatim>\<open>db.close()\<close>.
  \<open>locked_now\<close> is the test \<^verbatim>\<open>user.is_locked and user.locked_until and user.locked_until > now\<close>.
\<close>

definition locked_now :: "auth_user \<Rightarrow> int \<Rightarrow> int option" where
  "locked_now user now =
     (if is_locked user
      then (case locked_until user of
              None \<Rightarrow> None
            | Some t \<Rightarrow> if t > now then Some t else None)
      else None)"

definition authenticate ::
  "auth_service \<Rightarrow> call_env \<Rightarrow> world \<Rightarrow> string \<Rightarrow> string \<Rightarrow> string option \<Rightarrow> string option
     \<Rightarrow> string option \<Rightarrow> auth_result \<times> world" where
  "authenticate svc env w login password ip agent mfa_token =
     (let now = utcnow env;
          db = session_local (store w)
      in case first_index (\<lambda>u. username u = login \<or> email u = login) (users (work db)) of
           None \<Rightarrow>
             (let db = log_audit db now None ''LOGIN_FAILED'' ''USER_NOT_FOUND''
                         [(''username'', JStr login)] ip
              in ((False, ''Invalid credentials'', None), w\<lparr>store := close db\<rparr>))
         | Some i \<Rightarrow>
             (let user = users (work db) ! i
              in case locked_now user now of
                   Some t \<Rightarrow>
                     (let remaining = timedelta_seconds (t - now);
                          db = log_audit db now (Some (uid user)) ''LOGIN_FAILED'' ''ACCOUNT_LOCKED''
                                 [(''remaining_seconds'', JInt remaining)] ip
                      in ((False, ''Account locked. Try again in '' @ str_int remaining @ '' seconds'',
                           None),
                          w\<lparr>store := close db\<rparr>))
                 | None \<Rightarrow>
                     (let user = (if is_locked user
                                  then user\<lparr>is_locked := False, locked_until := None,
                                            failed_login_attempts := 0\<rparr>
                                  else user);
                          db = put_user db i user
                      in if \<not> verify_password svc password (password_hash user) then
                           (let user = user\<lparr>failed_login_attempts := failed_login_attempts user + 1,
                                            last_failed_login := Some now\<rparr>
                            in if failed_login_attempts user \<ge> max_login_attempts (config svc) then
                                 (let user = user\<lparr>is_locked := True,
                                                  locked_until := Some (now + lockout_duration (config svc))\<rparr>;
                                      db = commit (put_user db i user);
                                      db = log_audit db now (Some (uid user)) ''ACCOUNT_LOCKED''
                                             ''MAX_ATTEMPTS''
                                             [(''attempts'', JInt (failed_login_attempts user))] ip
                                  in ((False, ''Account locked due to multiple failed attempts'', None),
                                      w\<lparr>store := close db\<rparr>))
                               else
                                 (let db = commit (put_user db i user);
                                      db = log_audit db now (Some (uid user)) ''LOGIN_FAILED''
                                             ''INVALID_PASSWORD''
                                             [(''attempts'', JInt (failed_login_attempts user))] ip
                                  in ((False, ''Invalid credentials'', None), w\<lparr>store := close db\<rparr>)))
                         else if \<not> is_active user then
                           (let db = log_audit db now (Some (uid user)) ''LOGIN_FAILED''
                                       ''ACCOUNT_INACTIVE'' [] ip
                            in ((False, ''Account is inactive'', None), w\<lparr>store := close db\<rparr>))
                         else if require_email_verification (config svc) \<and> \<not> email_verified user then
                           (let db = log_audit db now (Some (uid user)) ''LOGIN_FAILED''
                                       ''EMAIL_NOT_VERIFIED'' [] ip
                            in ((False, ''Email not verified'', None), w\<lparr>store := close db\<rparr>))
                         else if mfa_enabled user then
                           (case mfa_token of
                              None \<Rightarrow> ((False, ''MFA token required'', None), w\<lparr>store := close db\<rparr>)
                            | Some code \<Rightarrow>
                                if code = [] then
                                  ((False, ''MFA token required'', None), w\<lparr>store := close db\<rparr>)
                                else if \<not> mfa_verify_token svc now (mfa_secret user) code then
                                  (let user = user\<lparr>failed_login_attempts :=
                                                     failed_login_attempts user + 1\<rparr>;
                                       db = commit (put_user db i user);
                                       db = log_audit db now (Some (uid user)) ''LOGIN_FAILED''
                                              ''INVALID_MFA''
                                              [(''attempts'', JInt (failed_login_attempts user))] ip
                                   in ((False, ''Invalid MFA token'', None), w\<lparr>store := close db\<rparr>))
                                else establish_session svc env w db i user ip agent)
                         else establish_session svc env w db i user ip agent)))"

section \<open>Sequences of calls\<close>

text \<open>
  A run of \<^verbatim>\<open>authenticate\<close> calls for one login name, each on the state the call
  before it left behind; the results are dropped.
\<close>

record attempt =
  att_env :: call_env
  att_password :: string
  att_ip :: "string option"
  att_agent :: "string option"
  att_mfa_token :: "string option"

fun login_attempts :: "auth_service \<Rightarrow> string \<Rightarrow> attempt list \<Rightarrow> world \<Rightarrow> world" where
  "login_attempts svc login [] w = w"
| "login_attempts svc login (a # rest) w =
     login_attempts svc login rest
       (snd (authenticate svc (att_env a) w login (att_password a) (att_ip a) (att_agent a)
               (att_mfa_token a)))"

section \<open>Example data\<close>

text \<open>
  A service with the documented defaults and a matching key pair, whose password
  check accepts the hash \<^verbatim>\<open>hash-of-\<close> followed by the password and whose TOTP check
  accepts the code equal to the secret; a user; the readings of one call.
\<close>

definition example_service :: auth_service where
  "example_service =
     \<lparr> config = default_config,
       signing_key = PrivateKey 1,
       verifying_key = PublicKey 1,
       verify_password = (\<lambda>password hash. hash = ''hash-of-'' @ password),
       mfa_verify_token = (\<lambda>now secret code. secret = Some code) \<rparr>"

definition alice :: auth_user where
  "alice =
     \<lparr> uid = 1, uuid = ''u-1'', username = ''alice'', email = ''alice@example.org'',
       password_hash = ''hash-of-secret'', mfa_secret = None, mfa_enabled = False,
       email_verified = True, password_changed_at = 0, must_change_password = False,
       is_active = True, is_locked = False, locked_until = None, failed_login_attempts = 0,
       last_failed_login = None, last_login = None, last_login_ip = None, roles = [] \<rparr>"

definition example_env :: "int \<Rightarrow> string \<Rightarrow> call_env" where
  "example_env t sid =
     \<lparr> utcnow = t, token_urlsafe = sid, access_jti = ''a-'' @ sid, refresh_jti = ''r-'' @ sid \<rparr>"

definition example_world :: "auth_user \<Rightarrow> auth_session list \<Rightarrow> world" where
  "example_world user rows =
     \<lparr> store = \<lparr> users = [user], sessions = rows, audit_logs = [] \<rparr>, redis = Map.empty \<rparr>"

text \<open>Five calls with a wrong password, one second apart.\<close>

definition wrong_guess :: "int \<Rightarrow> attempt" where
  "wrong_guess t =
     \<lparr> att_env = example_env t ''unused'', att_password = ''guess'', att_ip = None,
       att_agent = None, att_mfa_token = None \<rparr>"

definition five_wrong_guesses :: "attempt list" where
  "five_wrong_guesses = map wrong_guess [1000, 1001, 1002, 1003, 1004]"

text \<open>The same user with the second factor switched on.\<close>

definition alice_mfa :: auth_user where
  "alice_mfa = alice\<lparr>mfa_enabled := True, mfa_secret := Some ''424242''\<rparr>"

text \<open>
  Five logins of the example user with the right password: one at time 0, three
  around time 90000, when the first session has run past its \<^verbatim>\<open>expires_at\<close> of 43200,
  and one at time 100000.
\<close>

definition login_at :: "int \<Rightarrow> string \<Rightarrow> attempt" where
  "login_at t sid =
     \<lparr> att_env = example_env t sid, att_password = ''secret'', att_ip = None,
       att_agent = None, att_mfa_token = None \<rparr>"

definition four_logins_then_one :: "attempt list" where
  "four_logins_then_one =
     [login_at 0 ''a'', login_at 90000 ''b'', login_at 90001 ''c'', login_at 90002 ''d'',
      login_at 100000 ''e'']"

section \<open>Unfolding sets for the example runs\<close>

lemmas run_defs =
  authenticate_def Let_def session_local_def locked_now_def put_user_def put_session_def
  add_session_def commit_def log_audit_def close_def establish_session_def new_session_def
  example_service_def example_env_def example_world_def alice_def default_config_def
  timedelta_days_def timedelta_seconds_def

lemmas jwt_defs =
  verify_token_def generate_refresh_token_def generate_access_token_def jwt_encode_def
  validate_iat_def validate_nbf_def validate_exp_def validate_iss_def validate_aud_def
  refresh_claims_def access_claims_def jwt_manager_of_def example_service_def default_config_def

section \<open>Password strength: the example of the specification\<close>

lemma lower_password123: "lower ''password123'' = ''password123''"
  by (simp add: lower_def lower_char_def)

lemma lower_jdoe: "lower ''jdoe'' = ''jdoe''"
  by (simp add: lower_def lower_char_def)

lemma password123_classes:
  "\<not> re_search_class upper_class ''password123''"
  "re_search_class lower_class ''password123''"
  "re_search_class digit_class ''password123''"
  "\<not> re_search_class special_class ''password123''"
  by (simp_all add: re_search_class_def upper_class_def lower_class_def digit_class_def
      special_class_def)

lemma password123_not_common: "''password123'' \<notin> set common_passwords"
  by (simp add: common_passwords_def)

lemma jdoe_not_in_password123: "\<not> str_in ''jdoe'' ''password123''"
  by simp

text \<open>
  C9, as stated, at the documented defaults (special characters required): the result
  is not-ok and lists a special-character finding, but the claim also wants a
  common-password finding. The denylist is tested by list membership of the whole
  lower-cased password, and \<^verbatim>\<open>password123\<close> is not one of its five entries, so the three
  parts of the claim do not hold together.
\<close>

theorem password123_common_finding_counterexample:
  "\<not> (\<not> fst (validate_password_strength default_config ''password123'' (Some ''jdoe'') None)
      \<and> ''Password is too common''
          \<in> set (snd (validate_password_strength default_config ''password123'' (Some ''jdoe'') None))
      \<and> ''Password must contain at least one special character''
          \<in> set (snd (validate_password_strength default_config ''password123'' (Some ''jdoe'') None)))"
  by (simp add: validate_password_strength_def default_config_def lower_password123 lower_jdoe
      password123_classes password123_not_common)

text \<open>
  C9, amended: under every configuration that requires a special character,
  \<^verbatim>\<open>validate_password_strength("password123", "jdoe")\<close> returns not-ok, its violations
  include the special-character finding, and they do not include a common-password
  finding.
\<close>

theorem password123_rejected_for_character_class:
  assumes "password_require_special cfg"
  shows "\<not> fst (validate_password_strength cfg ''password123'' (Some ''jdoe'') None)
       \<and> ''Password must contain at least one special character''
           \<in> set (snd (validate_password_strength cfg ''password123'' (Some ''jdoe'') None))
       \<and> ''Password is too common''
           \<notin> set (snd (validate_password_strength cfg ''password123'' (Some ''jdoe'') None))"
  using assms
  by (simp add: validate_password_strength_def Let_def lower_password123 lower_jdoe
      password123_classes password123_not_common)

theorem password123_rejected_for_character_class_witness:
  "password_require_special default_config
   \<and> validate_password_strength default_config ''password123'' (Some ''jdoe'') None
       = (False, [''Password must be at least 12 characters'',
                  ''Password must contain at least one uppercase letter'',
                  ''Password must contain at least one special character''])
   \<and> ''Password is too common''
       \<notin> set (snd (validate_password_strength default_config ''password123'' (Some ''jdoe'') None))"
  using password123_rejected_for_character_class [of default_config]
  by (simp add: validate_password_strength_def default_config_def lower_password123 lower_jdoe
      password123_classes password123_not_common str_int_def)

section \<open>Token verification\<close>

lemma jwt_decode_payload:
  "jwt_decode t (JWT alg payload signer) k algs aud iss = Inr p \<Longrightarrow> p = payload"
  by (simp split: if_splits option.splits)

lemma access_claims_no_type: "access_claims cfg u sid t jti ''token_type'' = None"
  by (simp add: access_claims_def)

text \<open>
  C7: \<^verbatim>\<open>verify_token\<close> fails closed and with one result. Whatever error the decoder
  raises, the result is \<^verbatim>\<open>None\<close>; a token whose \<^verbatim>\<open>exp\<close> claim is not after the time of
  the check is refused whoever signed it, so also under a valid signature; a token
  signed by a key other than the manager's, a token with another audience, a token
  with another issuer, and a token without the refresh marker where a refresh token
  is expected are refused with the same \<^verbatim>\<open>None\<close>.
\<close>

theorem verify_token_fails_closed:
  "(jwt_decode t token (public_key m) [jwt_algorithm (jwt_config m)]
        (jwt_audience (jwt_config m)) (jwt_issuer (jwt_config m)) = Inl e
      \<longrightarrow> verify_token m t token ty = None)
   \<and> (payload ''exp'' = Some (CTime x) \<and> x \<le> t
      \<longrightarrow> verify_token m t (JWT alg payload signer) ty = None)
   \<and> (public_of signer \<noteq> public_key m
      \<longrightarrow> verify_token m t (JWT alg payload signer) ty = None)
   \<and> (payload ''aud'' = Some (CStr a) \<and> a \<noteq> jwt_audience (jwt_config m)
      \<longrightarrow> verify_token m t (JWT alg payload signer) ty = None)
   \<and> (payload ''iss'' = Some (CStr i) \<and> i \<noteq> jwt_issuer (jwt_config m)
      \<longrightarrow> verify_token m t (JWT alg payload signer) ty = None)
   \<and> (ty = ''refresh'' \<and> payload ''token_type'' \<noteq> Some (CStr ''refresh'')
      \<longrightarrow> verify_token m t (JWT alg payload signer) ty = None)"
proof (intro conjI impI)
  assume "jwt_decode t token (public_key m) [jwt_algorithm (jwt_config m)]
        (jwt_audience (jwt_config m)) (jwt_issuer (jwt_config m)) = Inl e"
  then show "verify_token m t token ty = None"
    by (simp add: verify_token_def split: jwt_error.splits)
next
  assume "payload ''exp'' = Some (CTime x) \<and> x \<le> t"
  then have "validate_exp t payload = Some ExpiredSignatureError"
    by (simp add: validate_exp_def)
  then show "verify_token m t (JWT alg payload signer) ty = None"
    by (cases "validate_iat t payload"; cases "validate_nbf t payload")
       (simp_all add: verify_token_def split: jwt_error.splits)
next
  assume "public_of signer \<noteq> public_key m"
  then show "verify_token m t (JWT alg payload signer) ty = None"
    by (simp add: verify_token_def)
next
  assume "payload ''aud'' = Some (CStr a) \<and> a \<noteq> jwt_audience (jwt_config m)"
  then have "validate_aud (jwt_audience (jwt_config m)) payload = Some InvalidAudienceError"
    by (auto simp: validate_aud_def)
  then show "verify_token m t (JWT alg payload signer) ty = None"
    by (cases "validate_iat t payload"; cases "validate_nbf t payload";
        cases "validate_exp t payload"; cases "validate_iss (jwt_issuer (jwt_config m)) payload")
       (simp_all add: verify_token_def split: jwt_error.splits)
next
  assume "payload ''iss'' = Some (CStr i) \<and> i \<noteq> jwt_issuer (jwt_config m)"
  then have "validate_iss (jwt_issuer (jwt_config m)) payload = Some InvalidIssuerError"
    by (auto simp: validate_iss_def)
  then show "verify_token m t (JWT alg payload signer) ty = None"
    by (cases "validate_iat t payload"; cases "validate_nbf t payload";
        cases "validate_exp t payload")
       (simp_all add: verify_token_def split: jwt_error.splits)
next
  assume "ty = ''refresh'' \<and> payload ''token_type'' \<noteq> Some (CStr ''refresh'')"
  then show "verify_token m t (JWT alg payload signer) ty = None"
    by (auto simp del: jwt_decode.simps simp: verify_token_def dest!: jwt_decode_payload
        split: sum.splits jwt_error.splits)
qed

theorem verify_token_fails_closed_witness:
  "jwt_decode 87400
      (generate_refresh_token (jwt_manager_of example_service) alice ''s1'' 1000 ''j1'')
      (public_key (jwt_manager_of example_service))
      [jwt_algorithm (jwt_config (jwt_manager_of example_service))]
      (jwt_audience (jwt_config (jwt_manager_of example_service)))
      (jwt_issuer (jwt_config (jwt_manager_of example_service)))
     = Inl ExpiredSignatureError
   \<and> verify_token (jwt_manager_of example_service) 87400
        (generate_refresh_token (jwt_manager_of example_service) alice ''s1'' 1000 ''j1'') ''refresh''
       = None
   \<and> public_of (PrivateKey 1) = public_key (jwt_manager_of example_service)
   \<and> refresh_claims default_config alice ''s1'' 1000 ''j1'' ''exp'' = Some (CTime 87400)
   \<and> verify_token (jwt_manager_of example_service) 87400
        (JWT ''RS256'' (refresh_claims default_config alice ''s1'' 1000 ''j1'') (PrivateKey 1))
        ''access'' = None
   \<and> public_of (PrivateKey 2) \<noteq> public_key (jwt_manager_of example_service)
   \<and> verify_token (jwt_manager_of example_service) 2000
        (JWT ''RS256'' (refresh_claims default_config alice ''s1'' 1000 ''j1'') (PrivateKey 2))
        ''access'' = None
   \<and> verify_token (jwt_manager_of example_service) 2000
        (JWT ''RS256'' ((refresh_claims default_config alice ''s1'' 1000 ''j1'')
                          (''aud'' \<mapsto> CStr ''other-api'')) (PrivateKey 1))
        ''access'' = None
   \<and> verify_token (jwt_manager_of example_service) 2000
        (JWT ''RS256'' ((refresh_claims default_config alice ''s1'' 1000 ''j1'')
                          (''iss'' \<mapsto> CStr ''other-auth'')) (PrivateKey 1))
        ''access'' = None
   \<and> access_claims default_config alice ''s1'' 1000 ''j1'' ''token_type'' \<noteq> Some (CStr ''refresh'')
   \<and> verify_token (jwt_manager_of example_service) 1500
        (JWT ''RS256'' (access_claims default_config alice ''s1'' 1000 ''j1'') (PrivateKey 1))
        ''refresh'' = None"
proof -
  let ?m = "jwt_manager_of example_service"
  let ?r = "refresh_claims default_config alice ''s1'' 1000 ''j1''"
  have expired_decode: "jwt_decode 87400 (generate_refresh_token ?m alice ''s1'' 1000 ''j1'')
      (public_key ?m) [jwt_algorithm (jwt_config ?m)] (jwt_audience (jwt_config ?m))
      (jwt_issuer (jwt_config ?m)) = Inl ExpiredSignatureError"
    by (simp add: jwt_defs)
  have c1: "verify_token ?m 87400 (generate_refresh_token ?m alice ''s1'' 1000 ''j1'') ''refresh''
              = None"
    using verify_token_fails_closed
      [of 87400 "generate_refresh_token ?m alice ''s1'' 1000 ''j1''" ?m ExpiredSignatureError
          "''refresh''"]
      expired_decode by blast
  have key1: "public_of (PrivateKey 1) = public_key ?m"
    and key2: "public_of (PrivateKey 2) \<noteq> public_key ?m"
    by (simp_all add: jwt_manager_of_def example_service_def)
  have exp: "?r ''exp'' = Some (CTime 87400)"
    by (simp add: refresh_claims_def default_config_def)
  have c2: "verify_token ?m 87400 (JWT ''RS256'' ?r (PrivateKey 1)) ''access'' = None"
    using verify_token_fails_closed
      [of 87400 _ ?m _ "''access''" ?r 87400 "''RS256''" "PrivateKey 1"] exp by simp
  have c3: "verify_token ?m 2000 (JWT ''RS256'' ?r (PrivateKey 2)) ''access'' = None"
    using verify_token_fails_closed
      [of 2000 _ ?m _ "''access''" ?r _ "''RS256''" "PrivateKey 2"] key2 by blast
  have c4: "verify_token ?m 2000 (JWT ''RS256'' (?r(''aud'' \<mapsto> CStr ''other-api''))
              (PrivateKey 1)) ''access'' = None"
    using verify_token_fails_closed
      [of 2000 _ ?m _ "''access''" "?r(''aud'' \<mapsto> CStr ''other-api'')" _ "''RS256''"
          "PrivateKey 1" "''other-api''"]
    by (simp add: jwt_manager_of_def example_service_def default_config_def)
  have c5: "verify_token ?m 2000 (JWT ''RS256'' (?r(''iss'' \<mapsto> CStr ''other-auth''))
              (PrivateKey 1)) ''access'' = None"
    using verify_token_fails_closed
      [of 2000 _ ?m _ "''access''" "?r(''iss'' \<mapsto> CStr ''other-auth'')" _ "''RS256''"
          "PrivateKey 1" _ "''other-auth''"]
    by (simp add: jwt_manager_of_def example_service_def default_config_def)
  have notype: "access_claims default_config alice ''s1'' 1000 ''j1'' ''token_type''
                  \<noteq> Some (CStr ''refresh'')"
    by (simp add: access_claims_no_type)
  have c6: "verify_token ?m 1500
              (JWT ''RS256'' (access_claims default_config alice ''s1'' 1000 ''j1'') (PrivateKey 1))
              ''refresh'' = None"
    using verify_token_fails_closed
      [of 1500 _ ?m _ "''refresh''" "access_claims default_config alice ''s1'' 1000 ''j1''" _
          "''RS256''" "PrivateKey 1"] notype by blast
  from expired_decode c1 key1 exp c2 key2 c3 c4 c5 notype c6 show ?thesis by blast
qed

text \<open>
  C1, as stated, fails in one direction: a refresh token issued by
  \<^verbatim>\<open>generate_refresh_token\<close> and checked with the expected type \<^verbatim>\<open>access\<close> while it is
  still valid is accepted, because the type marker is compared only when a refresh
  token is expected.
\<close>

theorem refresh_token_verifies_as_access_counterexample:
  "verify_token (jwt_manager_of example_service) 2000
     (generate_refresh_token (jwt_manager_of example_service) alice ''s1'' 1000 ''j1'') ''access''
   \<noteq> None"
  by (simp add: jwt_defs)

text \<open>
  C1, amended: an access token issued by \<^verbatim>\<open>generate_access_token\<close> never verifies
  with the expected type \<^verbatim>\<open>refresh\<close>, at any time and under any keys. In the other
  direction no type check is made: a refresh token issued by \<^verbatim>\<open>generate_refresh_token\<close>
  and checked with the expected type \<^verbatim>\<open>access\<close>, under the manager's own key pair and
  between its issue and its expiry, is returned with its claims.
\<close>

theorem token_type_check_one_direction:
  "verify_token m t (generate_access_token m u sid t0 jti) ''refresh'' = None
   \<and> (public_key m = public_of (private_key m) \<and> t0 \<le> t
        \<and> t < t0 + jwt_refresh_token_expiry (jwt_config m)
      \<longrightarrow> verify_token m t (generate_refresh_token m u sid t0 jti) ''access''
            = Some (refresh_claims (jwt_config m) u sid t0 jti))"
proof
  show "verify_token m t (generate_access_token m u sid t0 jti) ''refresh'' = None"
    by (auto simp del: jwt_decode.simps
        simp: verify_token_def generate_access_token_def jwt_encode_def access_claims_no_type
        dest!: jwt_decode_payload split: sum.splits jwt_error.splits)
next
  show "public_key m = public_of (private_key m) \<and> t0 \<le> t
        \<and> t < t0 + jwt_refresh_token_expiry (jwt_config m)
      \<longrightarrow> verify_token m t (generate_refresh_token m u sid t0 jti) ''access''
            = Some (refresh_claims (jwt_config m) u sid t0 jti)"
    by (simp add: verify_token_def generate_refresh_token_def jwt_encode_def
        validate_iat_def validate_nbf_def validate_exp_def validate_iss_def validate_aud_def
        refresh_claims_def)
qed

theorem token_type_check_one_direction_witness:
  "public_key (jwt_manager_of example_service) = public_of (private_key (jwt_manager_of example_service))
   \<and> (1000::int) \<le> 2000
   \<and> 2000 < 1000 + jwt_refresh_token_expiry (jwt_config (jwt_manager_of example_service))
   \<and> verify_token (jwt_manager_of example_service) 2000
        (generate_access_token (jwt_manager_of example_service) alice ''s1'' 1000 ''j1'') ''refresh''
       = None
   \<and> verify_token (jwt_manager_of example_service) 2000
        (generate_refresh_token (jwt_manager_of example_service) alice ''s1'' 1000 ''j1'') ''access''
       = Some (refresh_claims default_config alice ''s1'' 1000 ''j1'')"
  using token_type_check_one_direction
    [of "jwt_manager_of example_service" 2000 alice "''s1''" 1000 "''j1''"]
  by (simp add: jwt_manager_of_def example_service_def default_config_def)

section \<open>The branches of authenticate\<close>

lemma first_index_SomeD:
  "first_index P xs = Some i \<Longrightarrow> i < length xs \<and> P (xs ! i)"
  by (induction xs arbitrary: i) (auto split: if_splits)

lemma first_index_update:
  "first_index P xs = Some i \<Longrightarrow> P y \<Longrightarrow> first_index P (xs[i := y]) = Some i"
  by (induction xs arbitrary: i) (auto split: if_splits)

lemma wrong_password_below_threshold:
  assumes found: "first_index (\<lambda>u. username u = login \<or> email u = login) (users (store w)) = Some i"
    and unlocked: "\<not> is_locked (users (store w) ! i)"
    and wrong: "\<not> verify_password svc password (password_hash (users (store w) ! i))"
    and below: "failed_login_attempts (users (store w) ! i) + 1 < max_login_attempts (config svc)"
  shows "authenticate svc env w login password ip agent mfa_token =
           ((False, ''Invalid credentials'', None),
            w\<lparr>store := (store w)\<lparr>
                 users := (users (store w))[i := (users (store w) ! i)\<lparr>
                            failed_login_attempts := failed_login_attempts (users (store w) ! i) + 1,
                            last_failed_login := Some (utcnow env)\<rparr>],
                 audit_logs := audit_logs (store w) @
                   [\<lparr> audit_user_id = Some (uid (users (store w) ! i)),
                      event_type = ''LOGIN_FAILED'',
                      event_status = ''INVALID_PASSWORD'',
                      details = Some [(''attempts'', JInt (failed_login_attempts (users (store w) ! i) + 1))],
                      audit_ip_address = ip,
                      audit_created_at = utcnow env \<rparr>]\<rparr>\<rparr>)"
  using assms
  by (simp add: authenticate_def Let_def session_local_def locked_now_def put_user_def
      commit_def log_audit_def close_def)

lemma wrong_password_reaching_threshold:
  assumes found: "first_index (\<lambda>u. username u = login \<or> email u = login) (users (store w)) = Some i"
    and unlocked: "\<not> is_locked (users (store w) ! i)"
    and wrong: "\<not> verify_password svc password (password_hash (users (store w) ! i))"
    and reach: "max_login_attempts (config svc) \<le> failed_login_attempts (users (store w) ! i) + 1"
  shows "authenticate svc env w login password ip agent mfa_token =
           ((False, ''Account locked due to multiple failed attempts'', None),
            w\<lparr>store := (store w)\<lparr>
                 users := (users (store w))[i := (users (store w) ! i)\<lparr>
                            failed_login_attempts := failed_login_attempts (users (store w) ! i) + 1,
                            last_failed_login := Some (utcnow env),
                            is_locked := True,
                            locked_until := Some (utcnow env + lockout_duration (config svc))\<rparr>],
                 audit_logs := audit_logs (store w) @
                   [\<lparr> audit_user_id = Some (uid (users (store w) ! i)),
                      event_type = ''ACCOUNT_LOCKED'',
                      event_status = ''MAX_ATTEMPTS'',
                      details = Some [(''attempts'', JInt (failed_login_attempts (users (store w) ! i) + 1))],
                      audit_ip_address = ip,
                      audit_created_at = utcnow env \<rparr>]\<rparr>\<rparr>)"
  using assms
  by (simp add: authenticate_def Let_def session_local_def locked_now_def put_user_def
      commit_def log_audit_def close_def)

lemma locked_account_refused:
  assumes found: "first_index (\<lambda>u. username u = login \<or> email u = login) (users (store w)) = Some i"
    and locked: "is_locked (users (store w) ! i)"
    and until: "locked_until (users (store w) ! i) = Some t"
    and future: "utcnow env < t"
  shows "authenticate svc env w login password ip agent mfa_token =
           ((False, ''Account locked. Try again in '' @ str_int (timedelta_seconds (t - utcnow env))
                      @ '' seconds'', None),
            w\<lparr>store := (store w)\<lparr>
                 audit_logs := audit_logs (store w) @
                   [\<lparr> audit_user_id = Some (uid (users (store w) ! i)),
                      event_type = ''LOGIN_FAILED'',
                      event_status = ''ACCOUNT_LOCKED'',
                      details = Some [(''remaining_seconds'', JInt (timedelta_seconds (t - utcnow env)))],
                      audit_ip_address = ip,
                      audit_created_at = utcnow env \<rparr>]\<rparr>\<rparr>)"
  using assms
  by (simp add: authenticate_def Let_def session_local_def locked_now_def
      commit_def log_audit_def close_def)

section \<open>Lockout after repeated failures\<close>

lemma login_attempts_append:
  "login_attempts svc login (xs @ ys) w = login_attempts svc login ys (login_attempts svc login xs w)"
  by (induction xs arbitrary: w) simp_all

lemma failed_attempts_below_threshold:
  assumes "first_index (\<lambda>u. username u = login \<or> email u = login) (users (store w)) = Some i"
    and "\<not> is_locked (users (store w) ! i)"
    and "password_hash (users (store w) ! i) = h"
    and "list_all (\<lambda>a. \<not> verify_password svc (att_password a) h) tries"
    and "failed_login_attempts (users (store w) ! i) + int (length tries) < max_login_attempts (config svc)"
  shows "first_index (\<lambda>u. username u = login \<or> email u = login)
           (users (store (login_attempts svc login tries w))) = Some i
       \<and> \<not> is_locked (users (store (login_attempts svc login tries w)) ! i)
       \<and> password_hash (users (store (login_attempts svc login tries w)) ! i) = h
       \<and> failed_login_attempts (users (store (login_attempts svc login tries w)) ! i)
           = failed_login_attempts (users (store w) ! i) + int (length tries)"
  using assms
proof (induction tries arbitrary: w)
  case Nil
  then show ?case by simp
next
  case (Cons a rest)
  let ?u = "users (store w) ! i"
  let ?w1 = "snd (authenticate svc (att_env a) w login (att_password a) (att_ip a) (att_agent a)
               (att_mfa_token a))"
  from Cons.prems(1) have i: "i < length (users (store w))" and m: "username ?u = login \<or> email ?u = login"
    using first_index_SomeD [of "\<lambda>u. username u = login \<or> email u = login" "users (store w)" i]
    by simp_all
  have wrong: "\<not> verify_password svc (att_password a) (password_hash ?u)"
    using Cons.prems(3,4) by simp
  have below: "failed_login_attempts ?u + 1 < max_login_attempts (config svc)"
    using Cons.prems(5) by simp
  have users1: "users (store ?w1) = (users (store w))[i := ?u\<lparr>
                   failed_login_attempts := failed_login_attempts ?u + 1,
                   last_failed_login := Some (utcnow (att_env a))\<rparr>]"
    by (simp add: wrong_password_below_threshold [OF Cons.prems(1) Cons.prems(2) wrong below])
  have found1: "first_index (\<lambda>u. username u = login \<or> email u = login) (users (store ?w1)) = Some i"
    unfolding users1 using m by (intro first_index_update [OF Cons.prems(1)]) simp
  have nth1: "users (store ?w1) ! i = ?u\<lparr>
                   failed_login_attempts := failed_login_attempts ?u + 1,
                   last_failed_login := Some (utcnow (att_env a))\<rparr>"
    unfolding users1 using i by simp
  have ih: "first_index (\<lambda>u. username u = login \<or> email u = login)
           (users (store (login_attempts svc login rest ?w1))) = Some i
       \<and> \<not> is_locked (users (store (login_attempts svc login rest ?w1)) ! i)
       \<and> password_hash (users (store (login_attempts svc login rest ?w1)) ! i) = h
       \<and> failed_login_attempts (users (store (login_attempts svc login rest ?w1)) ! i)
           = failed_login_attempts (users (store ?w1) ! i) + int (length rest)"
  proof (rule Cons.IH [OF found1])
    show "\<not> is_locked (users (store ?w1) ! i)" using Cons.prems(2) by (simp add: nth1)
    show "password_hash (users (store ?w1) ! i) = h" using Cons.prems(3) by (simp add: nth1)
    show "list_all (\<lambda>a. \<not> verify_password svc (att_password a) h) rest" using Cons.prems(4) by simp
    show "failed_login_attempts (users (store ?w1) ! i) + int (length rest)
            < max_login_attempts (config svc)"
      using Cons.prems(5) by (simp add: nth1)
  qed
  then show ?case by (simp add: nth1)
qed


lemma list_all_take: "list_all P xs \<Longrightarrow> list_all P (take k xs)"
  by (induction xs arbitrary: k) (auto simp: take_Cons split: nat.splits)

lemma list_all_butlast: "list_all P xs \<Longrightarrow> list_all P (butlast xs)"
  by (induction xs) auto

lemma list_all_last: "list_all P xs \<Longrightarrow> xs \<noteq> [] \<Longrightarrow> P (last xs)"
  by (induction xs) auto

text \<open>
  C3: an account that is not locked and has no failed attempt on record receives
  \<open>max_login_attempts\<close> calls in a row, each with a wrong password (the threshold is at
  least one). No call before the last leaves the account locked. The last call
  returns the lockout failure together with the state in which the lock is already
  committed: \<open>is_locked\<close> holds and \<open>locked_until\<close> is the time of that call plus
  \<open>lockout_duration\<close>. From then on every call made before \<open>locked_until\<close> fails, whatever
  password it carries, the correct one included, and leaves the user rows as they are.
\<close>

theorem lockout_after_max_failed_attempts:
  assumes found: "first_index (\<lambda>u. username u = login \<or> email u = login) (users (store w)) = Some i"
    and unlocked: "\<not> is_locked (users (store w) ! i)"
    and zero: "failed_login_attempts (users (store w) ! i) = 0"
    and max: "1 \<le> max_login_attempts (config svc)"
    and n: "int (length tries) = max_login_attempts (config svc)"
    and wrong: "list_all (\<lambda>a. \<not> verify_password svc (att_password a)
                                 (password_hash (users (store w) ! i))) tries"
  shows "(\<forall>k < length tries.
            \<not> is_locked (users (store (login_attempts svc login (take k tries) w)) ! i))
       \<and> authenticate svc (att_env (last tries)) (login_attempts svc login (butlast tries) w) login
            (att_password (last tries)) (att_ip (last tries)) (att_agent (last tries))
            (att_mfa_token (last tries))
           = ((False, ''Account locked due to multiple failed attempts'', None),
              login_attempts svc login tries w)
       \<and> is_locked (users (store (login_attempts svc login tries w)) ! i)
       \<and> locked_until (users (store (login_attempts svc login tries w)) ! i)
           = Some (utcnow (att_env (last tries)) + lockout_duration (config svc))
       \<and> (\<forall>env password ip agent mfa_token.
            utcnow env < utcnow (att_env (last tries)) + lockout_duration (config svc)
            \<longrightarrow> \<not> fst (fst (authenticate svc env (login_attempts svc login tries w) login password
                                ip agent mfa_token))
                \<and> users (store (snd (authenticate svc env (login_attempts svc login tries w) login
                                        password ip agent mfa_token)))
                    = users (store (login_attempts svc login tries w)))"
proof -
  let ?match = "\<lambda>u. username u = login \<or> email u = login"
  let ?h = "password_hash (users (store w) ! i)"
  let ?a = "last tries"
  let ?wb = "login_attempts svc login (butlast tries) w"
  let ?w' = "login_attempts svc login tries w"
  let ?t = "utcnow (att_env ?a) + lockout_duration (config svc)"
  from max n have ne: "tries \<noteq> []" by auto
  have early: "\<not> is_locked (users (store (login_attempts svc login (take k tries) w)) ! i)"
    if "k < length tries" for k
  proof -
    have "failed_login_attempts (users (store w) ! i) + int (length (take k tries))
            < max_login_attempts (config svc)"
      using that zero n by simp
    from failed_attempts_below_threshold [OF found unlocked refl list_all_take [OF wrong] this]
    show ?thesis by simp
  qed
  from ne have len: "int (length (butlast tries)) + 1 = int (length tries)"
    by (cases tries rule: rev_cases) simp_all
  have "failed_login_attempts (users (store w) ! i) + int (length (butlast tries))
          < max_login_attempts (config svc)"
    using len zero n by linarith
  from failed_attempts_below_threshold [OF found unlocked refl list_all_butlast [OF wrong] this]
  have found_b: "first_index ?match (users (store ?wb)) = Some i"
    and unlocked_b: "\<not> is_locked (users (store ?wb) ! i)"
    and hash_b: "password_hash (users (store ?wb) ! i) = ?h"
    and count_b: "failed_login_attempts (users (store ?wb) ! i)
                    = failed_login_attempts (users (store w) ! i) + int (length (butlast tries))"
    by simp_all
  from found_b have i: "i < length (users (store ?wb))"
    and m: "?match (users (store ?wb) ! i)"
    using first_index_SomeD [of ?match "users (store ?wb)" i] by simp_all
  have wrong_a: "\<not> verify_password svc (att_password ?a) (password_hash (users (store ?wb) ! i))"
    using list_all_last [OF wrong ne] hash_b by simp
  have reach: "max_login_attempts (config svc) \<le> failed_login_attempts (users (store ?wb) ! i) + 1"
    using count_b zero n len by linarith
  note last_call = wrong_password_reaching_threshold [OF found_b unlocked_b wrong_a reach,
      of "att_env ?a" "att_ip ?a" "att_agent ?a" "att_mfa_token ?a"]
  have split: "?w' = snd (authenticate svc (att_env ?a) ?wb login (att_password ?a) (att_ip ?a)
                            (att_agent ?a) (att_mfa_token ?a))"
  proof -
    have "tries = butlast tries @ [?a]" using ne by simp
    then have "?w' = login_attempts svc login [?a] ?wb"
      using login_attempts_append [of svc login "butlast tries" "[?a]" w] by simp
    then show ?thesis by simp
  qed
  have users': "users (store ?w') = (users (store ?wb))[i := (users (store ?wb) ! i)\<lparr>
                   failed_login_attempts := failed_login_attempts (users (store ?wb) ! i) + 1,
                   last_failed_login := Some (utcnow (att_env ?a)),
                   is_locked := True,
                   locked_until := Some ?t\<rparr>]"
    unfolding split by (simp add: last_call)
  have call: "authenticate svc (att_env ?a) ?wb login (att_password ?a) (att_ip ?a) (att_agent ?a)
                (att_mfa_token ?a)
              = ((False, ''Account locked due to multiple failed attempts'', None), ?w')"
    unfolding split by (simp add: last_call)
  have locked': "is_locked (users (store ?w') ! i)"
    and until': "locked_until (users (store ?w') ! i) = Some ?t"
    unfolding users' using i by simp_all
  have found': "first_index ?match (users (store ?w')) = Some i"
    unfolding users' using m by (intro first_index_update [OF found_b]) simp
  have later: "\<not> fst (fst (authenticate svc env ?w' login password ip agent mfa_token))
      \<and> users (store (snd (authenticate svc env ?w' login password ip agent mfa_token)))
          = users (store ?w')"
    if "utcnow env < ?t" for env password ip agent mfa_token
    by (simp add: locked_account_refused [OF found' locked' until' that])
  from early call locked' until' later show ?thesis by blast
qed

theorem lockout_after_max_failed_attempts_witness:
  "first_index (\<lambda>u. username u = ''alice'' \<or> email u = ''alice'')
       (users (store (example_world alice []))) = Some 0
   \<and> \<not> is_locked (users (store (example_world alice [])) ! 0)
   \<and> failed_login_attempts (users (store (example_world alice [])) ! 0) = 0
   \<and> 1 \<le> max_login_attempts (config example_service)
   \<and> int (length five_wrong_guesses) = max_login_attempts (config example_service)
   \<and> list_all (\<lambda>a. \<not> verify_password example_service (att_password a)
                        (password_hash (users (store (example_world alice [])) ! 0)))
        five_wrong_guesses
   \<and> verify_password example_service ''secret''
        (password_hash (users (store (example_world alice [])) ! 0))
   \<and> \<not> is_locked (users (store (login_attempts example_service ''alice''
                                    (take 4 five_wrong_guesses) (example_world alice []))) ! 0)
   \<and> is_locked (users (store (login_attempts example_service ''alice'' five_wrong_guesses
                                 (example_world alice []))) ! 0)
   \<and> locked_until (users (store (login_attempts example_service ''alice'' five_wrong_guesses
                                    (example_world alice []))) ! 0) = Some 1904
   \<and> \<not> fst (fst (authenticate example_service (example_env 1903 ''s1'')
                    (login_attempts example_service ''alice'' five_wrong_guesses
                       (example_world alice []))
                    ''alice'' ''secret'' None None None))"
proof -
  have found: "first_index (\<lambda>u. username u = ''alice'' \<or> email u = ''alice'')
       (users (store (example_world alice []))) = Some 0"
    by (simp add: example_world_def alice_def)
  have unlocked: "\<not> is_locked (users (store (example_world alice [])) ! 0)"
    and zero: "failed_login_attempts (users (store (example_world alice [])) ! 0) = 0"
    by (simp_all add: example_world_def alice_def)
  have max: "1 \<le> max_login_attempts (config example_service)"
    and n: "int (length five_wrong_guesses) = max_login_attempts (config example_service)"
    by (simp_all add: example_service_def default_config_def five_wrong_guesses_def)
  have wrong: "list_all (\<lambda>a. \<not> verify_password example_service (att_password a)
                        (password_hash (users (store (example_world alice [])) ! 0)))
        five_wrong_guesses"
    by (simp add: example_service_def example_world_def alice_def five_wrong_guesses_def
        wrong_guess_def)
  have right: "verify_password example_service ''secret''
        (password_hash (users (store (example_world alice [])) ! 0))"
    by (simp add: example_service_def example_world_def alice_def)
  have last_time: "utcnow (att_env (last five_wrong_guesses))
                     + lockout_duration (config example_service) = 1904"
    by (simp add: five_wrong_guesses_def wrong_guess_def example_env_def example_service_def
        default_config_def)
  note inst = lockout_after_max_failed_attempts [OF found unlocked zero max n wrong]
  have early: "\<not> is_locked (users (store (login_attempts example_service ''alice''
                                    (take 4 five_wrong_guesses) (example_world alice []))) ! 0)"
  proof -
    have "4 < length five_wrong_guesses" by (simp add: five_wrong_guesses_def)
    with inst show ?thesis by blast
  qed
  have locked: "is_locked (users (store (login_attempts example_service ''alice'' five_wrong_guesses
                                 (example_world alice []))) ! 0)"
    using inst by blast
  have until: "locked_until (users (store (login_attempts example_service ''alice''
                   five_wrong_guesses (example_world alice []))) ! 0) = Some 1904"
    using inst unfolding last_time by blast
  have later: "\<not> fst (fst (authenticate example_service (example_env 1903 ''s1'')
                    (login_attempts example_service ''alice'' five_wrong_guesses
                       (example_world alice []))
                    ''alice'' ''secret'' None None None))"
  proof -
    have "utcnow (example_env 1903 ''s1'')
            < utcnow (att_env (last five_wrong_guesses)) + lockout_duration (config example_service)"
      unfolding last_time by (simp add: example_env_def)
    with inst show ?thesis by blast
  qed
  from found unlocked zero max n wrong right early locked until later show ?thesis
    by blast
qed

section \<open>The session a login creates\<close>

lemma establish_session_last:
  "sessions (store (snd (establish_session svc env w db i user ip agent))) \<noteq> []
   \<and> session_id (last (sessions (store (snd (establish_session svc env w db i user ip agent)))))
       = token_urlsafe env
   \<and> access_token_expires
         (last (sessions (store (snd (establish_session svc env w db i user ip agent)))))
       = utcnow env + jwt_access_token_expiry (config svc)
   \<and> refresh_token_expires
         (last (sessions (store (snd (establish_session svc env w db i user ip agent)))))
       = utcnow env + jwt_refresh_token_expiry (config svc)
   \<and> expires_at (last (sessions (store (snd (establish_session svc env w db i user ip agent)))))
       = utcnow env + session_absolute_timeout (config svc)"
  by (simp add: establish_session_def Let_def put_user_def put_session_def add_session_def
      commit_def log_audit_def close_def new_session_def split: option.splits prod.splits)

lemma authenticate_success_establishes:
  assumes "fst (fst (authenticate svc env w login password ip agent mfa_token))"
  shows "\<exists>db i user. authenticate svc env w login password ip agent mfa_token
                       = establish_session svc env w db i user ip agent"
proof (cases "first_index (\<lambda>u. username u = login \<or> email u = login) (users (store w))")
  case None
  with assms show ?thesis by (simp add: authenticate_def Let_def session_local_def)
next
  case (Some i)
  show ?thesis
  proof (cases "locked_now (users (store w) ! i) (utcnow env)")
    case (Some t)
    with \<open>first_index _ _ = Some i\<close> assms show ?thesis
      by (simp add: authenticate_def Let_def session_local_def)
  next
    case None
    with \<open>first_index _ _ = Some i\<close> assms show ?thesis
      apply (simp add: authenticate_def Let_def session_local_def split: if_splits option.splits)
         apply blast+
      done
  qed
qed

text \<open>
  C2, as stated, fails under the documented defaults: the refresh token lives 86400
  seconds and the session 43200, so the stored \<^verbatim>\<open>refresh_token_expires\<close> lies after
  \<^verbatim>\<open>expires_at\<close>.
\<close>

theorem refresh_outlives_session_counterexample:
  "fst (fst (authenticate example_service (example_env 1000 ''s1'') (example_world alice [])
               ''alice'' ''secret'' None None None))
   \<and> \<not> (access_token_expires
           (last (sessions (store (snd (authenticate example_service (example_env 1000 ''s1'')
              (example_world alice []) ''alice'' ''secret'' None None None)))))
          \<le> expires_at
           (last (sessions (store (snd (authenticate example_service (example_env 1000 ''s1'')
              (example_world alice []) ''alice'' ''secret'' None None None)))))
        \<and> refresh_token_expires
           (last (sessions (store (snd (authenticate example_service (example_env 1000 ''s1'')
              (example_world alice []) ''alice'' ''secret'' None None None)))))
          \<le> expires_at
           (last (sessions (store (snd (authenticate example_service (example_env 1000 ''s1'')
              (example_world alice []) ''alice'' ''secret'' None None None))))))"
  by (simp add: run_defs)

text \<open>
  C2, amended: a successful \<^verbatim>\<open>authenticate\<close> stores a session, last in the table, with
  the identifier drawn for the call, whose \<^verbatim>\<open>access_token_expires\<close> is at most
  \<^verbatim>\<open>expires_at\<close> exactly when \<^verbatim>\<open>jwt_access_token_expiry\<close> is at most
  \<^verbatim>\<open>session_absolute_timeout\<close>, and whose \<^verbatim>\<open>refresh_token_expires\<close> is at most \<^verbatim>\<open>expires_at\<close>
  exactly when \<^verbatim>\<open>jwt_refresh_token_expiry\<close> is at most \<^verbatim>\<open>session_absolute_timeout\<close>.
  Under the documented defaults the first holds and the second does not.
\<close>

theorem session_expiries_follow_configuration:
  assumes "fst (fst (authenticate svc env w login password ip agent mfa_token))"
  shows "sessions (store (snd (authenticate svc env w login password ip agent mfa_token))) \<noteq> []
    \<and> session_id (last (sessions (store (snd (authenticate svc env w login password ip agent
                                                  mfa_token)))))
        = token_urlsafe env
    \<and> (access_token_expires (last (sessions (store (snd (authenticate svc env w login password ip
                                                             agent mfa_token)))))
          \<le> expires_at (last (sessions (store (snd (authenticate svc env w login password ip agent
                                                        mfa_token)))))
       \<longleftrightarrow> jwt_access_token_expiry (config svc) \<le> session_absolute_timeout (config svc))
    \<and> (refresh_token_expires (last (sessions (store (snd (authenticate svc env w login password ip
                                                              agent mfa_token)))))
          \<le> expires_at (last (sessions (store (snd (authenticate svc env w login password ip agent
                                                        mfa_token)))))
       \<longleftrightarrow> jwt_refresh_token_expiry (config svc) \<le> session_absolute_timeout (config svc))
    \<and> (config svc = default_config
       \<longrightarrow> access_token_expires (last (sessions (store (snd (authenticate svc env w login password
                                                                 ip agent mfa_token)))))
             \<le> expires_at (last (sessions (store (snd (authenticate svc env w login password ip
                                                           agent mfa_token)))))
         \<and> expires_at (last (sessions (store (snd (authenticate svc env w login password ip agent
                                                       mfa_token)))))
             < refresh_token_expires (last (sessions (store (snd (authenticate svc env w login
                                                                    password ip agent mfa_token))))))"
proof -
  obtain db i user where
    "authenticate svc env w login password ip agent mfa_token
       = establish_session svc env w db i user ip agent"
    using authenticate_success_establishes [OF assms] by blast
  then show ?thesis
    using establish_session_last [of svc env w db i user ip agent]
    by (auto simp: default_config_def)
qed

theorem session_expiries_follow_configuration_witness:
  "fst (fst (authenticate example_service (example_env 1000 ''s1'') (example_world alice [])
               ''alice'' ''secret'' None None None))
   \<and> config example_service = default_config
   \<and> jwt_access_token_expiry (config example_service)
        \<le> session_absolute_timeout (config example_service)
   \<and> \<not> jwt_refresh_token_expiry (config example_service)
          \<le> session_absolute_timeout (config example_service)
   \<and> access_token_expires
        (last (sessions (store (snd (authenticate example_service (example_env 1000 ''s1'')
           (example_world alice []) ''alice'' ''secret'' None None None)))))
       \<le> expires_at
        (last (sessions (store (snd (authenticate example_service (example_env 1000 ''s1'')
           (example_world alice []) ''alice'' ''secret'' None None None)))))
   \<and> expires_at
        (last (sessions (store (snd (authenticate example_service (example_env 1000 ''s1'')
           (example_world alice []) ''alice'' ''secret'' None None None)))))
       < refresh_token_expires
        (last (sessions (store (snd (authenticate example_service (example_env 1000 ''s1'')
           (example_world alice []) ''alice'' ''secret'' None None None)))))"
proof -
  have ok: "fst (fst (authenticate example_service (example_env 1000 ''s1'')
               (example_world alice []) ''alice'' ''secret'' None None None))"
    by (simp add: run_defs)
  have cfg: "config example_service = default_config"
    by (simp add: example_service_def)
  have times: "jwt_access_token_expiry (config example_service)
                 \<le> session_absolute_timeout (config example_service)"
    "\<not> jwt_refresh_token_expiry (config example_service)
          \<le> session_absolute_timeout (config example_service)"
    by (simp_all add: example_service_def default_config_def)
  from session_expiries_follow_configuration [OF ok] cfg ok times show ?thesis
    by blast
qed

section \<open>The second factor\<close>

text \<open>
  C10: a user is found, is not locked at the time of the call, gives the right
  password, is active, has a verified e-mail address where the configuration asks
  for one, and has the second factor switched on. Called without a code (\<^verbatim>\<open>None\<close> or
  the empty string), \<^verbatim>\<open>authenticate\<close> returns the failure \<^verbatim>\<open>MFA token required\<close> with no
  token bundle and leaves both stores as they were: no counter is incremented, no
  lock is set or cleared, no session row is added.
\<close>

theorem mfa_code_missing_changes_nothing:
  assumes found: "first_index (\<lambda>u. username u = login \<or> email u = login) (users (store w)) = Some i"
    and not_locked: "locked_now (users (store w) ! i) (utcnow env) = None"
    and password_ok: "verify_password svc password (password_hash (users (store w) ! i))"
    and active: "is_active (users (store w) ! i)"
    and verified: "require_email_verification (config svc) \<longrightarrow> email_verified (users (store w) ! i)"
    and mfa: "mfa_enabled (users (store w) ! i)"
    and missing: "mfa_token = None \<or> mfa_token = Some []"
  shows "authenticate svc env w login password ip agent mfa_token
           = ((False, ''MFA token required'', None), w)"
  using assms
  by (auto simp: authenticate_def Let_def session_local_def put_user_def close_def)

theorem mfa_code_missing_changes_nothing_witness:
  "first_index (\<lambda>u. username u = ''alice'' \<or> email u = ''alice'')
       (users (store (example_world alice_mfa []))) = Some 0
   \<and> locked_now (users (store (example_world alice_mfa [])) ! 0)
        (utcnow (example_env 1000 ''s1'')) = None
   \<and> verify_password example_service ''secret''
        (password_hash (users (store (example_world alice_mfa [])) ! 0))
   \<and> is_active (users (store (example_world alice_mfa [])) ! 0)
   \<and> email_verified (users (store (example_world alice_mfa [])) ! 0)
   \<and> mfa_enabled (users (store (example_world alice_mfa [])) ! 0)
   \<and> authenticate example_service (example_env 1000 ''s1'') (example_world alice_mfa [])
        ''alice'' ''secret'' None None None
       = ((False, ''MFA token required'', None), example_world alice_mfa [])"
  using mfa_code_missing_changes_nothing
    [of "''alice''" "example_world alice_mfa []" 0 "example_env 1000 ''s1''" example_service
        "''secret''" None None None]
  by (simp add: example_world_def alice_mfa_def alice_def example_service_def locked_now_def)

text \<open>
  C5 at a concrete input: the user stands one failure below the threshold of 5.
  With the right password and a wrong code the call returns \<^verbatim>\<open>Invalid MFA token\<close> and
  the counter becomes 5, but the account is not locked and \<^verbatim>\<open>locked_until\<close> stays
  unset. The same call with a wrong password locks the account until 1900.
\<close>

theorem mfa_failure_does_not_lock:
  "fst (authenticate example_service (example_env 1000 ''s1'')
          (example_world (alice_mfa\<lparr>failed_login_attempts := 4\<rparr>) [])
          ''alice'' ''secret'' None None (Some ''000000''))
     = (False, ''Invalid MFA token'', None)
   \<and> map (\<lambda>u. (failed_login_attempts u, is_locked u, locked_until u))
         (users (store (snd (authenticate example_service (example_env 1000 ''s1'')
            (example_world (alice_mfa\<lparr>failed_login_attempts := 4\<rparr>) [])
            ''alice'' ''secret'' None None (Some ''000000'')))))
     = [(5, False, None)]
   \<and> max_login_attempts (config example_service) = 5
   \<and> map (\<lambda>u. (failed_login_attempts u, is_locked u, locked_until u))
         (users (store (snd (authenticate example_service (example_env 1000 ''s1'')
            (example_world (alice_mfa\<lparr>failed_login_attempts := 4\<rparr>) [])
            ''alice'' ''wrong'' None None (Some ''000000'')))))
     = [(5, True, Some 1900)]"
  by (simp add: run_defs alice_mfa_def)

text \<open>
  C6 at a concrete input: the right password without a code for a user with the
  second factor switched on. The call fails with \<^verbatim>\<open>MFA token required\<close> and the audit
  table stays empty, whereas the same user, once inactive, gets one audit row.
\<close>

theorem mfa_required_branch_writes_no_audit_row:
  "fst (authenticate example_service (example_env 1000 ''s1'') (example_world alice_mfa [])
          ''alice'' ''secret'' None None None)
     = (False, ''MFA token required'', None)
   \<and> audit_logs (store (snd (authenticate example_service (example_env 1000 ''s1'')
        (example_world alice_mfa []) ''alice'' ''secret'' None None None))) = []
   \<and> map event_status (audit_logs (store (snd (authenticate example_service
        (example_env 1000 ''s1'') (example_world (alice_mfa\<lparr>is_active := False\<rparr>) [])
        ''alice'' ''secret'' None None None)))) = [''ACCOUNT_INACTIVE'']"
  by (simp add: run_defs alice_mfa_def)

text \<open>
  Every call appends exactly one audit row, except the call that ends with
  \<^verbatim>\<open>MFA token required\<close>, which appends none.
\<close>

lemma audit_rows_per_call:
  "length (audit_logs (store (snd (authenticate svc env w login password ip agent mfa_token))))
     = length (audit_logs (store w))
       + (if fst (snd (fst (authenticate svc env w login password ip agent mfa_token)))
               = ''MFA token required'' then 0 else 1)"
  by (simp add: authenticate_def Let_def session_local_def put_user_def put_session_def
      add_session_def commit_def log_audit_def close_def establish_session_def
      split: option.splits prod.splits)

section \<open>The limit on concurrent sessions\<close>

text \<open>
  C4 at a concrete input, reached through the service itself from an empty session
  table. After the first four logins the user holds, at time 100000, exactly three
  active and unexpired sessions (the limit) and one older row that is still flagged
  active but has expired. The fifth login succeeds, the row it deactivates is the
  expired one, none of the three live sessions is evicted, and the user is left
  with four active, unexpired sessions.
\<close>

theorem limit_exceeded_after_expired_eviction:
  "length (filter (active_unexpired 1 100000)
      (sessions (store (login_attempts example_service ''alice'' (butlast four_logins_then_one)
         (example_world alice [])))))
     = nat (concurrent_sessions_limit (config example_service))
   \<and> fst (fst (authenticate example_service (example_env 100000 ''e'')
        (login_attempts example_service ''alice'' (butlast four_logins_then_one)
           (example_world alice []))
        ''alice'' ''secret'' None None None))
   \<and> map (\<lambda>s. (session_id s, sess_is_active s, created_at s, 100000 < expires_at s))
        (sessions (store (login_attempts example_service ''alice'' four_logins_then_one
           (example_world alice []))))
     = [(''a'', False, 0, False), (''b'', True, 90000, True), (''c'', True, 90001, True),
        (''d'', True, 90002, True), (''e'', True, 100000, True)]
   \<and> length (filter (active_unexpired 1 100000)
        (sessions (store (login_attempts example_service ''alice'' four_logins_then_one
           (example_world alice [])))))
     = 4"
  by (simp add: run_defs login_at_def four_logins_then_one_def active_unexpired_def
      flagged_active_def)

section \<open>Unknown user and wrong password\<close>

text \<open>
  C8, as stated, fails for the wrong password that reaches the lockout threshold.
  After four wrong guesses for the example user, a fifth call that names no account
  returns \<^verbatim>\<open>Invalid credentials\<close>, while the fifth wrong guess for the existing account
  returns \<^verbatim>\<open>Account locked due to multiple failed attempts\<close>: the two results differ.
\<close>

theorem wrong_password_at_threshold_counterexample:
  "first_index (\<lambda>u. username u = ''nobody'' \<or> email u = ''nobody'')
       (users (store (login_attempts example_service ''alice'' (take 4 five_wrong_guesses)
                        (example_world alice [])))) = None
   \<and> first_index (\<lambda>u. username u = ''alice'' \<or> email u = ''alice'')
       (users (store (login_attempts example_service ''alice'' (take 4 five_wrong_guesses)
                        (example_world alice [])))) = Some 0
   \<and> \<not> verify_password example_service ''guess''
          (password_hash (users (store (login_attempts example_service ''alice''
                                          (take 4 five_wrong_guesses) (example_world alice []))) ! 0))
   \<and> fst (authenticate example_service (example_env 1004 ''s1'')
             (login_attempts example_service ''alice'' (take 4 five_wrong_guesses)
                (example_world alice []))
             ''nobody'' ''guess'' None None None)
       = (False, ''Invalid credentials'', None)
   \<and> fst (authenticate example_service (example_env 1004 ''s1'')
             (login_attempts example_service ''alice'' (take 4 five_wrong_guesses)
                (example_world alice []))
             ''alice'' ''guess'' None None None)
       = (False, ''Account locked due to multiple failed attempts'', None)
   \<and> fst (authenticate example_service (example_env 1004 ''s1'')
             (login_attempts example_service ''alice'' (take 4 five_wrong_guesses)
                (example_world alice []))
             ''nobody'' ''guess'' None None None)
       \<noteq> fst (authenticate example_service (example_env 1004 ''s1'')
               (login_attempts example_service ''alice'' (take 4 five_wrong_guesses)
                  (example_world alice []))
               ''alice'' ''guess'' None None None)"
  by (simp add: run_defs five_wrong_guesses_def wrong_guess_def)

text \<open>
  C8, amended: a call that names no account returns failure with the message
  \<^verbatim>\<open>Invalid credentials\<close> and no bundle. A call that names an existing account and
  carries a wrong password returns the very same result exactly when the account is
  not locked at the time of the call and the failure counter (taken as 0 where an
  elapsed lock is cleared first) stays below \<open>max_login_attempts\<close> after the
  increment; otherwise it returns a lockout message. Where the results agree, the
  audit rows the two calls append still differ: \<^verbatim>\<open>USER_NOT_FOUND\<close> without a user
  reference against \<^verbatim>\<open>INVALID_PASSWORD\<close> with the user's key.
\<close>

theorem unknown_user_and_wrong_password_same_result:
  assumes unknown: "first_index (\<lambda>u. username u = login1 \<or> email u = login1) (users (store w1)) = None"
    and found: "first_index (\<lambda>u. username u = login2 \<or> email u = login2) (users (store w2)) = Some i"
    and wrong: "\<not> verify_password svc password2 (password_hash (users (store w2) ! i))"
  shows "fst (authenticate svc env1 w1 login1 password1 ip1 agent1 mfa1)
           = (False, ''Invalid credentials'', None)
       \<and> (fst (authenticate svc env2 w2 login2 password2 ip2 agent2 mfa2)
             = fst (authenticate svc env1 w1 login1 password1 ip1 agent1 mfa1)
          \<longleftrightarrow> locked_now (users (store w2) ! i) (utcnow env2) = None
              \<and> (if is_locked (users (store w2) ! i) then 0
                  else failed_login_attempts (users (store w2) ! i)) + 1
                 < max_login_attempts (config svc))
       \<and> audit_logs (store (snd (authenticate svc env1 w1 login1 password1 ip1 agent1 mfa1)))
           = audit_logs (store w1) @
               [\<lparr> audit_user_id = None, event_type = ''LOGIN_FAILED'',
                  event_status = ''USER_NOT_FOUND'',
                  details = Some [(''username'', JStr login1)],
                  audit_ip_address = ip1, audit_created_at = utcnow env1 \<rparr>]
       \<and> (locked_now (users (store w2) ! i) (utcnow env2) = None
            \<and> (if is_locked (users (store w2) ! i) then 0
                else failed_login_attempts (users (store w2) ! i)) + 1
               < max_login_attempts (config svc)
          \<longrightarrow> audit_logs (store (snd (authenticate svc env2 w2 login2 password2 ip2 agent2 mfa2)))
                = audit_logs (store w2) @
                   [\<lparr> audit_user_id = Some (uid (users (store w2) ! i)),
                      event_type = ''LOGIN_FAILED'',
                      event_status = ''INVALID_PASSWORD'',
                      details = Some [(''attempts'',
                         JInt ((if is_locked (users (store w2) ! i) then 0
                                else failed_login_attempts (users (store w2) ! i)) + 1))],
                      audit_ip_address = ip2, audit_created_at = utcnow env2 \<rparr>])"
proof -
  let ?u = "users (store w2) ! i"
  have r1: "fst (authenticate svc env1 w1 login1 password1 ip1 agent1 mfa1)
              = (False, ''Invalid credentials'', None)"
    and a1: "audit_logs (store (snd (authenticate svc env1 w1 login1 password1 ip1 agent1 mfa1)))
           = audit_logs (store w1) @
               [\<lparr> audit_user_id = None, event_type = ''LOGIN_FAILED'',
                  event_status = ''USER_NOT_FOUND'',
                  details = Some [(''username'', JStr login1)],
                  audit_ip_address = ip1, audit_created_at = utcnow env1 \<rparr>]"
    using unknown
    by (simp_all add: authenticate_def Let_def session_local_def commit_def log_audit_def close_def)
  show ?thesis
  proof (cases "locked_now ?u (utcnow env2)")
    case (Some t)
    with found have "fst (authenticate svc env2 w2 login2 password2 ip2 agent2 mfa2)
        = (False, ''Account locked. Try again in ''
                    @ str_int (timedelta_seconds (t - utcnow env2)) @ '' seconds'', None)"
      by (simp add: authenticate_def Let_def session_local_def)
    with Some r1 a1 show ?thesis by simp
  next
    case None
    show ?thesis
    proof (cases "(if is_locked ?u then 0 else failed_login_attempts ?u) + 1
                    < max_login_attempts (config svc)")
      case True
      with None found wrong r1 a1 show ?thesis
        by (cases "is_locked ?u")
           (simp_all add: authenticate_def Let_def session_local_def put_user_def commit_def
              log_audit_def close_def)
    next
      case False
      with None found wrong have
        "fst (authenticate svc env2 w2 login2 password2 ip2 agent2 mfa2)
           = (False, ''Account locked due to multiple failed attempts'', None)"
        by (cases "is_locked ?u")
           (simp_all add: authenticate_def Let_def session_local_def put_user_def commit_def
              log_audit_def close_def)
      with False r1 a1 show ?thesis by simp
    qed
  qed
qed

theorem unknown_user_and_wrong_password_same_result_witness:
  "first_index (\<lambda>u. username u = ''nobody'' \<or> email u = ''nobody'')
       (users (store (example_world alice []))) = None
   \<and> first_index (\<lambda>u. username u = ''alice'' \<or> email u = ''alice'')
       (users (store (example_world alice []))) = Some 0
   \<and> \<not> verify_password example_service ''wrong''
          (password_hash (users (store (example_world alice [])) ! 0))
   \<and> locked_now (users (store (example_world alice [])) ! 0) (utcnow (example_env 1000 ''s1''))
       = None
   \<and> (if is_locked (users (store (example_world alice [])) ! 0) then 0
       else failed_login_attempts (users (store (example_world alice [])) ! 0)) + 1
      < max_login_attempts (config example_service)
   \<and> fst (authenticate example_service (example_env 1000 ''s1'') (example_world alice [])
             ''nobody'' ''wrong'' None None None)
       = (False, ''Invalid credentials'', None)
   \<and> fst (authenticate example_service (example_env 1000 ''s1'') (example_world alice [])
             ''alice'' ''wrong'' None None None)
       = fst (authenticate example_service (example_env 1000 ''s1'') (example_world alice [])
               ''nobody'' ''wrong'' None None None)
   \<and> map event_status (audit_logs (store (snd (authenticate example_service
        (example_env 1000 ''s1'') (example_world alice []) ''nobody'' ''wrong'' None None None))))
       = [''USER_NOT_FOUND'']
   \<and> map event_status (audit_logs (store (snd (authenticate example_service
        (example_env 1000 ''s1'') (example_world alice []) ''alice'' ''wrong'' None None None))))
       = [''INVALID_PASSWORD'']"
proof -
  have unknown: "first_index (\<lambda>u. username u = ''nobody'' \<or> email u = ''nobody'')
       (users (store (example_world alice []))) = None"
    and found: "first_index (\<lambda>u. username u = ''alice'' \<or> email u = ''alice'')
       (users (store (example_world alice []))) = Some 0"
    and wrong: "\<not> verify_password example_service ''wrong''
          (password_hash (users (store (example_world alice [])) ! 0))"
    and not_locked: "locked_now (users (store (example_world alice [])) ! 0)
                       (utcnow (example_env 1000 ''s1'')) = None"
    and below: "(if is_locked (users (store (example_world alice [])) ! 0) then 0
       else failed_login_attempts (users (store (example_world alice [])) ! 0)) + 1
      < max_login_attempts (config example_service)"
    by (simp_all add: example_world_def alice_def example_service_def locked_now_def
        default_config_def)
  note inst = unknown_user_and_wrong_password_same_result [OF unknown found wrong,
      where ?env1.0 = "example_env 1000 ''s1''" and ?env2.0 = "example_env 1000 ''s1''"
        and ?password1.0 = "''wrong''" and ?ip1.0 = None and ?agent1.0 = None and ?mfa1.0 = None
        and ?ip2.0 = None and ?agent2.0 = None and ?mfa2.0 = None]
  from inst have r1: "fst (authenticate example_service (example_env 1000 ''s1'')
        (example_world alice []) ''nobody'' ''wrong'' None None None)
       = (False, ''Invalid credentials'', None)"
    by blast
  from inst not_locked below have same:
    "fst (authenticate example_service (example_env 1000 ''s1'') (example_world alice [])
             ''alice'' ''wrong'' None None None)
       = fst (authenticate example_service (example_env 1000 ''s1'') (example_world alice [])
               ''nobody'' ''wrong'' None None None)"
    by blast
  from inst have a1: "map event_status (audit_logs (store (snd (authenticate example_service
        (example_env 1000 ''s1'') (example_world alice []) ''nobody'' ''wrong'' None None None))))
       = [''USER_NOT_FOUND'']"
    by (simp add: example_world_def)
  from inst not_locked below have a2:
    "map event_status (audit_logs (store (snd (authenticate example_service
        (example_env 1000 ''s1'') (example_world alice []) ''alice'' ''wrong'' None None None))))
       = [''INVALID_PASSWORD'']"
    by (simp add: example_world_def)
  from unknown found wrong not_locked below r1 same a1 a2 show ?thesis by blast
qed

end
